theory Spec2Isabelle
  imports Main
begin

section \<open>Data model\<close>

text \<open>
  The records handled by the views are plain JavaScript objects whose fields may all be
  missing. A missing (undefined or null) field is \<open>None\<close>; string fields are \<open>string\<close>,
  array fields are lists.
\<close>

record person =
  name :: string
  displayname :: string

record art_record =
  title :: "string option"
  dated :: "string option"
  images :: "string list option"
  primaryimageurl :: "string option"
  description :: "string option"
  culture :: "string list option"
  style :: "string option"
  technique :: "string option"
  medium :: "string option"
  dimensions :: "string option"
  people :: "person list option"
  department :: "string option"
  division :: "string option"
  contact :: "string option"
  creditline :: "string option"

record page_info =
  prev :: "string option"
  "next" :: "string option"

record query_results =
  info :: page_info
  records :: "art_record list"

type_synonym err = string

section \<open>The container's state and the effects on it\<close>

text \<open>
  The only timer callback of the program is the arrow function
  \<^verbatim>\<open>() => { setIsLoading(false); }\<close> of \<^verbatim>\<open>Searchable\<close>.
\<close>

datatype callback = ClearLoading

text \<open>Every call a handler makes on a prop, on the event, on the console or on the api.\<close>

datatype effect =
    PreventDefault
  | SetIsLoading bool
  | SetSearchResults query_results
  | SetFeaturedResult art_record
  | ConsoleError err
  | FetchFromTermAndValue string string
  | FetchFromURL "string option"
  | SetTimeout callback nat

text \<open>
  The three slots owned by the container (\<open>isLoading\<close>, \<open>searchResults\<close>,
  \<open>featuredResult\<close>), the console, the timers waiting in the event loop (callback and due
  time), a clock in milliseconds, and the history of effects in the order they happened.
\<close>

record app_state =
  isLoading :: bool
  searchResults :: query_results
  featuredResult :: "art_record option"
  console :: "err list"
  timers :: "(callback \<times> nat) list"
  clock :: nat
  log :: "effect list"

text \<open>
  How a statement (or a whole async function body) ends: normally, by an exception that
  nobody caught, or not at all because it awaits a promise that never settles.
\<close>

datatype completion = Normal | Throw err | Suspended

type_synonym comp = "app_state \<Rightarrow> completion \<times> app_state"

definition seq :: "comp \<Rightarrow> comp \<Rightarrow> comp" where
  "seq a b s = (case a s of (Normal, s') \<Rightarrow> b s' | r \<Rightarrow> r)"

definition try_catch :: "comp \<Rightarrow> (err \<Rightarrow> comp) \<Rightarrow> comp" where
  "try_catch body handler s =
     (case body s of (Throw e, s') \<Rightarrow> handler e s' | r \<Rightarrow> r)"

text \<open>
  The finally block runs after a normal or an abrupt end of the protected block, and the
  protected block's completion is kept unless the finally block itself ends abruptly.
\<close>

definition try_finally :: "comp \<Rightarrow> comp \<Rightarrow> comp" where
  "try_finally body fin s =
     (case body s of
        (Suspended, s') \<Rightarrow> (Suspended, s')
      | (c, s') \<Rightarrow> (case fin s' of (Normal, s'') \<Rightarrow> (c, s'') | r \<Rightarrow> r))"

definition emit :: "effect \<Rightarrow> app_state \<Rightarrow> app_state" where
  "emit e s = s\<lparr>log := log s @ [e]\<rparr>"

definition preventDefault :: comp where
  "preventDefault s = (Normal, emit PreventDefault s)"

definition setIsLoading :: "bool \<Rightarrow> comp" where
  "setIsLoading b s = (Normal, emit (SetIsLoading b) (s\<lparr>isLoading := b\<rparr>))"

definition setSearchResults :: "query_results \<Rightarrow> comp" where
  "setSearchResults r s = (Normal, emit (SetSearchResults r) (s\<lparr>searchResults := r\<rparr>))"

definition setFeaturedResult :: "art_record \<Rightarrow> comp" where
  "setFeaturedResult r s = (Normal, emit (SetFeaturedResult r) (s\<lparr>featuredResult := Some r\<rparr>))"

definition console_error :: "err \<Rightarrow> comp" where
  "console_error e s = (Normal, emit (ConsoleError e) (s\<lparr>console := console s @ [e]\<rparr>))"

definition setTimeout :: "callback \<Rightarrow> nat \<Rightarrow> comp" where
  "setTimeout cb delay s =
     (Normal, emit (SetTimeout cb delay) (s\<lparr>timers := timers s @ [(cb, clock s + delay)]\<rparr>))"

subsection \<open>The fetch collaborators\<close>

text \<open>
  \<^verbatim>\<open>fetchQueryResultsFromTermAndValue\<close> and \<^verbatim>\<open>fetchQueryResultsFromURL\<close> are imported
  from \<^verbatim>\<open>../api\<close>; they are parameters of the handlers. The promise such a call returns
  resolves with a result set, rejects with an error, or stays pending for ever.
\<close>

datatype outcome = Resolves query_results | Rejects err | NeverSettles

type_synonym term_value_api = "string \<Rightarrow> string \<Rightarrow> outcome"
type_synonym url_api = "string option \<Rightarrow> outcome"

text \<open>\<^verbatim>\<open>const results = await p; k(results)\<close>\<close>

definition await :: "outcome \<Rightarrow> (query_results \<Rightarrow> comp) \<Rightarrow> comp" where
  "await p k s =
     (case p of
        Resolves results \<Rightarrow> k results s
      | Rejects error \<Rightarrow> (Throw error, s)
      | NeverSettles \<Rightarrow> (Suspended, s))"

section \<open>The handlers\<close>

text \<open>\<^verbatim>\<open>handleClick\<close> of \<^verbatim>\<open>Searchable\<close>.\<close>

definition handleClick :: "term_value_api \<Rightarrow> string \<Rightarrow> string \<Rightarrow> comp" where
  "handleClick fetchQueryResultsFromTermAndValue searchTerm searchValue =
     seq preventDefault
    (seq (setIsLoading True)
    (try_finally
       (try_catch
          (\<lambda>s. await (fetchQueryResultsFromTermAndValue searchTerm searchValue)
                  setSearchResults
                  (emit (FetchFromTermAndValue searchTerm searchValue) s))
          (\<lambda>error. console_error error))
       (setTimeout ClearLoading 1000)))"

text \<open>\<^verbatim>\<open>fetchPage\<close> of \<^verbatim>\<open>Preview\<close>.\<close>

definition fetchPage :: "url_api \<Rightarrow> string option \<Rightarrow> comp" where
  "fetchPage fetchQueryResultsFromURL pageUrl =
     seq (setIsLoading True)
    (try_finally
       (try_catch
          (\<lambda>s. await (fetchQueryResultsFromURL pageUrl)
                  setSearchResults
                  (emit (FetchFromURL pageUrl) s))
          (\<lambda>error. console_error error))
       (setIsLoading False))"

text \<open>The click handler of one entry of \<^verbatim>\<open>Preview\<close>.\<close>

definition selectRecord :: "art_record \<Rightarrow> comp" where
  "selectRecord record = seq preventDefault (setFeaturedResult record)"

subsection \<open>The event loop's timers\<close>

definition run_callback :: "callback \<Rightarrow> app_state \<Rightarrow> app_state" where
  "run_callback cb s = (case cb of ClearLoading \<Rightarrow> snd (setIsLoading False s))"

text \<open>
  Letting \<open>dt\<close> milliseconds pass: the timers that are due by then fire, in the order they
  were set, the others stay. Every timer of the program has the same delay, so the order in
  which they were set is the order in which they are due.
\<close>

definition advance :: "nat \<Rightarrow> app_state \<Rightarrow> app_state" where
  "advance dt s =
     (let t = clock s + dt;
          due = filter (\<lambda>(cb, d). d \<le> t) (timers s);
          later = filter (\<lambda>(cb, d). \<not> d \<le> t) (timers s)
      in fold (\<lambda>(cb, d). run_callback cb) due (s\<lparr>clock := t, timers := later\<rparr>))"

subsection \<open>A click whose fetch takes time\<close>

text \<open>
  An async function runs up to its \<^verbatim>\<open>await\<close> when it is called and goes on when the
  promise has settled; in between the event loop runs whatever falls due. The two parts of
  \<^verbatim>\<open>handleClick\<close>: up to the call of the fetch, and from the settled promise on.
\<close>

definition handleClick_start :: "string \<Rightarrow> string \<Rightarrow> comp" where
  "handleClick_start searchTerm searchValue =
     seq preventDefault
    (seq (setIsLoading True)
         (\<lambda>s. (Normal, emit (FetchFromTermAndValue searchTerm searchValue) s)))"

definition handleClick_resume :: "outcome \<Rightarrow> comp" where
  "handleClick_resume p =
     try_finally
       (try_catch (await p setSearchResults) (\<lambda>error. console_error error))
       (setTimeout ClearLoading 1000)"

section \<open>JavaScript and JSX helpers\<close>

text \<open>
  \<^verbatim>\<open>String.prototype.toLowerCase\<close>, on strings of ASCII characters: the letters A to Z are
  mapped to a to z and every other character is kept.
\<close>

definition lower_char :: "char \<Rightarrow> char" where
  "lower_char c =
     (case map_of (zip ''ABCDEFGHIJKLMNOPQRSTUVWXYZ'' ''abcdefghijklmnopqrstuvwxyz'') c of
        Some l \<Rightarrow> l
      | None \<Rightarrow> c)"

definition toLowerCase :: "string \<Rightarrow> string" where
  "toLowerCase s = map lower_char s"

text \<open>Truthiness of a string that may be missing: undefined, null and \<^verbatim>\<open>""\<close> are falsy.\<close>

definition truthy :: "string option \<Rightarrow> bool" where
  "truthy v = (case v of None \<Rightarrow> False | Some s \<Rightarrow> s \<noteq> [])"

text \<open>
  \<^verbatim>\<open>{v && (...)}\<close> for a string field \<open>v\<close>: the body when \<open>v\<close> is truthy; a falsy \<open>v\<close>
  is itself the child, and React renders nothing for undefined, null, false and \<^verbatim>\<open>""\<close>.
\<close>

definition jsx_and :: "string option \<Rightarrow> (string \<Rightarrow> 'a list) \<Rightarrow> 'a list" where
  "jsx_and v body = (case v of None \<Rightarrow> [] | Some s \<Rightarrow> if s = [] then [] else body s)"

text \<open>
  \<^verbatim>\<open>{xs && xs.length > 0 && (...)}\<close> and \<^verbatim>\<open>{Array.isArray(xs) && xs.length > 0 && (...)}\<close>
  for an array field \<open>xs\<close>: an array is always truthy.
\<close>

definition jsx_and_nonempty :: "'b list option \<Rightarrow> ('b list \<Rightarrow> 'a list) \<Rightarrow> 'a list" where
  "jsx_and_nonempty v body =
     (case v of None \<Rightarrow> [] | Some xs \<Rightarrow> if length xs > 0 then body xs else [])"

text \<open>\<^verbatim>\<open>a || b\<close> on strings.\<close>

definition js_or :: "string option \<Rightarrow> string \<Rightarrow> string" where
  "js_or v d = (case v of None \<Rightarrow> d | Some s \<Rightarrow> if s = [] then d else s)"

section \<open>Rendered elements\<close>

text \<open>
  What an \<^verbatim>\<open>onClick\<close> prop holds: \<^verbatim>\<open>handleClick\<close> of a \<^verbatim>\<open>Searchable\<close> with its
  \<^verbatim>\<open>searchTerm\<close> and \<^verbatim>\<open>searchValue\<close>, \<^verbatim>\<open>() => fetchPage(url)\<close> of a pagination button, or the
  handler of a result entry with its record.
\<close>

datatype handler =
    HandleClick string string
  | FetchPageClick "string option"
  | RecordClick art_record

text \<open>
  The props the components give to their elements: \<^verbatim>\<open>id\<close>, \<^verbatim>\<open>className\<close>, \<^verbatim>\<open>href\<close>,
  \<^verbatim>\<open>src\<close>, \<^verbatim>\<open>alt\<close>, \<^verbatim>\<open>disabled\<close> and \<^verbatim>\<open>onClick\<close>.
\<close>

datatype jsx_prop =
    ElemId string
  | ClassName string
  | Href string
  | Src string
  | Alt "string option"
  | Disabled bool
  | OnClick handler

text \<open>An element with its tag, its props and its children, or a text node.\<close>

datatype node = Element string "jsx_prop list" "node list" | Text string

text \<open>\<^verbatim>\<open>{s}\<close> as a child: a text node, and nothing for the empty string.\<close>

definition jsx_text :: "string \<Rightarrow> node list" where
  "jsx_text s = (if s = [] then [] else [Text s])"

section \<open>The components\<close>

text \<open>
  The \<^verbatim>\<open>key\<close> given to the elements of a mapped array is React's reconciliation hint; it is
  no prop of the rendered element and is left out. The setters each component passes on are
  the container's, modelled by the effects above.
\<close>

definition Searchable :: "string \<Rightarrow> string \<Rightarrow> node" where
  "Searchable searchTerm searchValue =
     Element ''span'' [ClassName ''content'']
       [Element ''a'' [Href ''#'', OnClick (HandleClick searchTerm searchValue)]
          (jsx_text searchValue)]"

definition Feature :: "art_record option \<Rightarrow> node" where
  "Feature featured =
     (case featured of
        None \<Rightarrow> Element ''main'' [ElemId ''feature''] []
      | Some r \<Rightarrow>
        Element ''main'' [ElemId ''feature'']
         [Element ''div'' [ClassName ''object-feature'']
           [Element ''header'' []
              (jsx_and (title r) (\<lambda>title. [Element ''h3'' [] (jsx_text title)]) @
               jsx_and (dated r) (\<lambda>dated. [Element ''h4'' [] (jsx_text dated)])),
            Element ''section'' [ClassName ''facts'']
              (jsx_and (title r) (\<lambda>title.
                 [Element ''span'' [ClassName ''title''] [Text ''Title:''],
                  Element ''span'' [ClassName ''content''] (jsx_text title)]) @
               jsx_and (dated r) (\<lambda>dated.
                 [Element ''span'' [ClassName ''title''] [Text ''Dated:''],
                  Element ''span'' [ClassName ''content''] (jsx_text dated)]) @
               jsx_and (primaryimageurl r) (\<lambda>primaryimageurl.
                 [Element ''span'' [ClassName ''title''] [],
                  Element ''span'' [ClassName ''content'']
                    [Element ''img'' [Src primaryimageurl] []]]) @
               jsx_and (description r) (\<lambda>description.
                 [Element ''span'' [ClassName ''title''] [Text ''Description:''],
                  Element ''span'' [ClassName ''content''] (jsx_text description)]) @
               jsx_and_nonempty (culture r) (\<lambda>culture.
                 [Element ''span'' [ClassName ''title''] [Text ''Culture:''],
                  Element ''span'' [ClassName ''content'']
                    (map (\<lambda>item. Searchable ''culture'' item) culture)]) @
               jsx_and (style r) (\<lambda>style.
                 [Element ''span'' [ClassName ''title''] [Text ''Style:''],
                  Element ''span'' [ClassName ''content''] (jsx_text style)]) @
               jsx_and (technique r) (\<lambda>technique.
                 [Element ''span'' [ClassName ''title''] [Text ''Technique:''],
                  Element ''span'' [ClassName ''content'']
                    [Searchable ''technique'' (toLowerCase technique)]]) @
               jsx_and (medium r) (\<lambda>medium.
                 [Element ''span'' [ClassName ''title''] [Text ''Medium:''],
                  Element ''span'' [ClassName ''content'']
                    [Searchable ''medium'' medium]]) @
               jsx_and (dimensions r) (\<lambda>dimensions.
                 [Element ''span'' [ClassName ''title''] [Text ''Dimensions:''],
                  Element ''span'' [ClassName ''content''] (jsx_text dimensions)]) @
               jsx_and_nonempty (people r) (\<lambda>people.
                 [Element ''span'' [ClassName ''title''] [Text ''People:''],
                  Element ''span'' [ClassName ''content'']
                    (map (\<lambda>person. Searchable ''people'' (name person)) people)]) @
               jsx_and (department r) (\<lambda>department.
                 [Element ''span'' [ClassName ''title''] [Text ''Department:''],
                  Element ''span'' [ClassName ''content''] (jsx_text department)]) @
               jsx_and (division r) (\<lambda>division.
                 [Element ''span'' [ClassName ''title''] [Text ''Division:''],
                  Element ''span'' [ClassName ''content''] (jsx_text division)]) @
               jsx_and (contact r) (\<lambda>contact.
                 [Element ''span'' [ClassName ''title''] [Text ''Contact:''],
                  Element ''span'' [ClassName ''content''] (jsx_text contact)]) @
               jsx_and (creditline r) (\<lambda>creditline.
                 [Element ''span'' [ClassName ''title''] [Text ''Credit Line:''],
                  Element ''span'' [ClassName ''content''] (jsx_text creditline)]))]])"

definition Preview :: "query_results \<Rightarrow> node" where
  "Preview results =
     Element ''aside'' [ElemId ''preview'']
       [Element ''header'' [ClassName ''pagination'']
          [Element ''button''
             [Disabled (\<not> truthy (prev (info results))), ClassName ''previous'',
              OnClick (FetchPageClick (prev (info results)))]
             [Text ''Previous''],
           Element ''button''
             [Disabled (\<not> truthy (next (info results))), ClassName ''next'',
              OnClick (FetchPageClick (next (info results)))]
             [Text ''Next'']],
        Element ''section'' [ClassName ''results'']
          (map (\<lambda>record.
                  Element ''div'' [ClassName ''object-preview'', OnClick (RecordClick record)]
                    (jsx_and (primaryimageurl record) (\<lambda>url.
                       [Element ''img'' [Src url, Alt (description record)] []]) @
                     [Element ''h3'' [] (jsx_text (js_or (title record) ''MISSING INFO''))]))
               (records results))]"

section \<open>Clicking a rendered element\<close>

fun click_handler :: "jsx_prop list \<Rightarrow> handler option" where
  "click_handler [] = None"
| "click_handler (OnClick h # ps) = Some h"
| "click_handler (p # ps) = click_handler ps"

definition run_handler :: "term_value_api \<Rightarrow> url_api \<Rightarrow> handler \<Rightarrow> comp" where
  "run_handler api_tv api_url h =
     (case h of
        HandleClick searchTerm searchValue \<Rightarrow> handleClick api_tv searchTerm searchValue
      | FetchPageClick pageUrl \<Rightarrow> fetchPage api_url pageUrl
      | RecordClick record \<Rightarrow> selectRecord record)"

text \<open>The \<^verbatim>\<open>disabled\<close> prop of an element is \<^verbatim>\<open>true\<close>.\<close>

fun is_disabled :: "node \<Rightarrow> bool" where
  "is_disabled (Element tag props kids) = (Disabled True \<in> set props)"
| "is_disabled (Text t) = False"

text \<open>A disabled button gets no click event; an element without handler does nothing.\<close>

definition click :: "term_value_api \<Rightarrow> url_api \<Rightarrow> node \<Rightarrow> comp" where
  "click api_tv api_url n s =
     (if is_disabled n then (Normal, s)
      else case n of
        Text t \<Rightarrow> (Normal, s)
      | Element tag props kids \<Rightarrow>
          (case click_handler props of
             None \<Rightarrow> (Normal, s)
           | Some h \<Rightarrow> run_handler api_tv api_url h s))"

section \<open>Observing a rendered tree\<close>

fun text_of :: "node list \<Rightarrow> string" where
  "text_of [] = []"
| "text_of (Text t # ns) = t @ text_of ns"
| "text_of (Element tag props kids # ns) = text_of ns"

text \<open>The elements of a class, in document order.\<close>

fun find_by_class :: "string \<Rightarrow> node \<Rightarrow> node list" where
  "find_by_class c (Element tag props kids) =
     (if ClassName c \<in> set props then [Element tag props kids] else []) @
     concat (map (find_by_class c) kids)"
| "find_by_class c (Text t) = []"

text \<open>The labels of the fact rows: the text of each \<^verbatim>\<open><span className="title">\<close>.\<close>

fun labels :: "node \<Rightarrow> string list" where
  "labels (Element tag props kids) =
     (if tag = ''span'' \<and> ClassName ''title'' \<in> set props then [text_of kids] else []) @
     concat (map labels kids)"
| "labels (Text t) = []"

text \<open>
  The search links: for each element whose click handler is a \<^verbatim>\<open>handleClick\<close>, its search
  term, its search value and the text it shows.
\<close>

fun links :: "node \<Rightarrow> (string \<times> string \<times> string) list" where
  "links (Element tag props kids) =
     (case click_handler props of
        Some (HandleClick searchTerm searchValue) \<Rightarrow> [(searchTerm, searchValue, text_of kids)]
      | _ \<Rightarrow> []) @
     concat (map links kids)"
| "links (Text t) = []"

text \<open>The sources of the images shown.\<close>

fun img_sources :: "node \<Rightarrow> string list" where
  "img_sources (Element tag props kids) =
     (if tag = ''img'' then [u. Src u \<leftarrow> props] else []) @
     concat (map img_sources kids)"
| "img_sources (Text t) = []"

text \<open>The calls of a fetch collaborator in a history.\<close>

fun is_fetch :: "effect \<Rightarrow> bool" where
  "is_fetch (FetchFromTermAndValue t v) = True"
| "is_fetch (FetchFromURL u) = True"
| "is_fetch e = False"

definition fetch_calls :: "app_state \<Rightarrow> effect list" where
  "fetch_calls s = filter is_fetch (log s)"

section \<open>The fact rows of the detail view\<close>

text \<open>The rows of the facts section, in the order of the source.\<close>

datatype fact =
    TitleFact | DatedFact | ImageFact | DescriptionFact | CultureFact | StyleFact
  | TechniqueFact | MediumFact | DimensionsFact | PeopleFact | DepartmentFact
  | DivisionFact | ContactFact | CreditlineFact

text \<open>The label each row shows; the row of the primary image has an empty label.\<close>

fun fact_label :: "fact \<Rightarrow> string" where
  "fact_label TitleFact = ''Title:''"
| "fact_label DatedFact = ''Dated:''"
| "fact_label ImageFact = []"
| "fact_label DescriptionFact = ''Description:''"
| "fact_label CultureFact = ''Culture:''"
| "fact_label StyleFact = ''Style:''"
| "fact_label TechniqueFact = ''Technique:''"
| "fact_label MediumFact = ''Medium:''"
| "fact_label DimensionsFact = ''Dimensions:''"
| "fact_label PeopleFact = ''People:''"
| "fact_label DepartmentFact = ''Department:''"
| "fact_label DivisionFact = ''Division:''"
| "fact_label ContactFact = ''Contact:''"
| "fact_label CreditlineFact = ''Credit Line:''"

text \<open>The field of a row is present on the record; culture and people are also non-empty.\<close>

fun fact_present :: "fact \<Rightarrow> art_record \<Rightarrow> bool" where
  "fact_present TitleFact r = (title r \<noteq> None)"
| "fact_present DatedFact r = (dated r \<noteq> None)"
| "fact_present ImageFact r = (primaryimageurl r \<noteq> None)"
| "fact_present DescriptionFact r = (description r \<noteq> None)"
| "fact_present CultureFact r = (culture r \<noteq> None \<and> culture r \<noteq> Some [])"
| "fact_present StyleFact r = (style r \<noteq> None)"
| "fact_present TechniqueFact r = (technique r \<noteq> None)"
| "fact_present MediumFact r = (medium r \<noteq> None)"
| "fact_present DimensionsFact r = (dimensions r \<noteq> None)"
| "fact_present PeopleFact r = (people r \<noteq> None \<and> people r \<noteq> Some [])"
| "fact_present DepartmentFact r = (department r \<noteq> None)"
| "fact_present DivisionFact r = (division r \<noteq> None)"
| "fact_present ContactFact r = (contact r \<noteq> None)"
| "fact_present CreditlineFact r = (creditline r \<noteq> None)"

section \<open>Concrete inputs\<close>

definition no_fields :: art_record where
  "no_fields =
     \<lparr>title = None, dated = None, images = None, primaryimageurl = None, description = None,
      culture = None, style = None, technique = None, medium = None, dimensions = None,
      people = None, department = None, division = None, contact = None,
      creditline = None\<rparr>"

definition vase :: art_record where
  "vase = no_fields\<lparr>title := Some ''Vase'', primaryimageurl := Some ''img1''\<rparr>"

definition bowl :: art_record where
  "bowl = no_fields\<lparr>title := Some ''Bowl'', culture := Some [''Greek'', ''Roman'']\<rparr>"

definition etching :: art_record where
  "etching = no_fields\<lparr>technique := Some ''Etching'', medium := Some ''Oil on Canvas''\<rparr>"

definition portrait :: art_record where
  "portrait =
     no_fields\<lparr>people := Some [\<lparr>name = ''Rembrandt'',
                                  displayname = ''Rembrandt Harmensz. van Rijn''\<rparr>]\<rparr>"

definition album :: art_record where
  "album = no_fields\<lparr>images := Some [''img1'', ''img2'']\<rparr>"

definition first_page :: query_results where
  "first_page = \<lparr>info = \<lparr>prev = None, next = Some ''page2''\<rparr>, records = [vase]\<rparr>"

definition no_results :: query_results where
  "no_results = \<lparr>info = \<lparr>prev = None, next = None\<rparr>, records = []\<rparr>"

definition idle :: app_state where
  "idle = \<lparr>isLoading = False, searchResults = first_page, featuredResult = None,
           console = [], timers = [], clock = 0, log = []\<rparr>"

text \<open>
  Two clicks on search links. The fetch of the first click resolves at once, and 400
  milliseconds pass.
\<close>

definition after_first_click :: app_state where
  "after_first_click =
     advance 400 (snd (handleClick (\<lambda>t v. Resolves first_page) ''culture'' ''Greek'' idle))"

text \<open>
  Then the second click: its fetch is in flight for 700 milliseconds, resolves, and 1000
  more milliseconds pass.
\<close>

definition second_click_started :: app_state where
  "second_click_started = snd (handleClick_start ''culture'' ''Roman'' after_first_click)"

definition second_fetch_in_flight :: app_state where
  "second_fetch_in_flight = advance 700 second_click_started"

definition second_fetch_settled :: app_state where
  "second_fetch_settled =
     snd (handleClick_resume (Resolves no_results) second_fetch_in_flight)"

definition second_timer_fired :: app_state where
  "second_timer_fired = advance 1000 second_fetch_settled"

section \<open>Lemmas on the handlers\<close>

lemmas comp_defs =
  seq_def try_catch_def try_finally_def await_def emit_def preventDefault_def
  setIsLoading_def setSearchResults_def setFeaturedResult_def console_error_def setTimeout_def

lemma handleClick_Resolves:
  "api t v = Resolves r \<Longrightarrow>
   handleClick api t v s =
     (Normal, s\<lparr>isLoading := True, searchResults := r,
                timers := timers s @ [(ClearLoading, clock s + 1000)],
                log := log s @ [PreventDefault, SetIsLoading True, FetchFromTermAndValue t v,
                                SetSearchResults r, SetTimeout ClearLoading 1000]\<rparr>)"
  by (simp add: handleClick_def comp_defs)

lemma handleClick_Rejects:
  "api t v = Rejects e \<Longrightarrow>
   handleClick api t v s =
     (Normal, s\<lparr>isLoading := True, console := console s @ [e],
                timers := timers s @ [(ClearLoading, clock s + 1000)],
                log := log s @ [PreventDefault, SetIsLoading True, FetchFromTermAndValue t v,
                                ConsoleError e, SetTimeout ClearLoading 1000]\<rparr>)"
  by (simp add: handleClick_def comp_defs)

lemma handleClick_NeverSettles:
  "api t v = NeverSettles \<Longrightarrow>
   handleClick api t v s =
     (Suspended, s\<lparr>isLoading := True,
                   log := log s @ [PreventDefault, SetIsLoading True,
                                   FetchFromTermAndValue t v]\<rparr>)"
  by (simp add: handleClick_def comp_defs)


lemma fetchPage_Rejects:
  "api u = Rejects e \<Longrightarrow>
   fetchPage api u s =
     (Normal, s\<lparr>isLoading := False, console := console s @ [e],
                log := log s @ [SetIsLoading True, FetchFromURL u,
                                ConsoleError e, SetIsLoading False]\<rparr>)"
  by (simp add: fetchPage_def comp_defs)


lemma selectRecord_eq:
  "selectRecord r s =
     (Normal, s\<lparr>featuredResult := Some r,
                log := log s @ [PreventDefault, SetFeaturedResult r]\<rparr>)"
  by (simp add: selectRecord_def comp_defs)

lemma handleClick_fetch_calls:
  "fetch_calls (snd (handleClick api t v s)) = fetch_calls s @ [FetchFromTermAndValue t v]"
  by (cases "api t v")
     (simp_all add: handleClick_Resolves handleClick_Rejects handleClick_NeverSettles
        fetch_calls_def)


subsection \<open>Timers\<close>

lemma fold_callbacks_frame:
  "console (fold (\<lambda>(cb, d). run_callback cb) xs s) = console s \<and>
   searchResults (fold (\<lambda>(cb, d). run_callback cb) xs s) = searchResults s \<and>
   featuredResult (fold (\<lambda>(cb, d). run_callback cb) xs s) = featuredResult s"
  by (induction xs arbitrary: s) (auto simp: run_callback_def comp_defs split: callback.splits)

lemma fold_callbacks_isLoading:
  "xs \<noteq> [] \<Longrightarrow> \<not> isLoading (fold (\<lambda>(cb, d). run_callback cb) xs s)"
proof (induction xs arbitrary: s)
  case Nil
  then show ?case by simp
next
  case (Cons x xs)
  obtain cb d where x: "x = (cb, d)" by (cases x)
  show ?case
  proof (cases xs)
    case Nil
    then show ?thesis using x by (cases cb) (simp add: run_callback_def comp_defs)
  next
    case (Cons y ys)
    then show ?thesis using Cons.IH [of "run_callback cb s"] x by simp
  qed
qed

lemma advance_frame:
  "console (advance dt s) = console s \<and> searchResults (advance dt s) = searchResults s \<and>
   featuredResult (advance dt s) = featuredResult s"
  by (simp add: advance_def Let_def fold_callbacks_frame)

lemma advance_due:
  "(cb, d) \<in> set (timers s) \<Longrightarrow> d \<le> clock s + dt \<Longrightarrow> \<not> isLoading (advance dt s)"
  unfolding advance_def Let_def
  by (rule fold_callbacks_isLoading) (auto simp: filter_empty_conv)

lemma advance_single_due:
  "timers s = [(ClearLoading, d)] \<Longrightarrow> d \<le> clock s + dt \<Longrightarrow>
   advance dt s =
     s\<lparr>isLoading := False, timers := [], clock := clock s + dt,
       log := log s @ [SetIsLoading False]\<rparr>"
  by (simp add: advance_def Let_def run_callback_def comp_defs)

lemma advance_single_later:
  "timers s = [(ClearLoading, d)] \<Longrightarrow> \<not> d \<le> clock s + dt \<Longrightarrow>
   advance dt s = s\<lparr>clock := clock s + dt\<rparr>"
  by (simp add: advance_def Let_def run_callback_def comp_defs)


subsection \<open>The two steps of a click\<close>

lemma handleClick_split:
  "handleClick api t v s = seq (handleClick_start t v) (handleClick_resume (api t v)) s"
  by (cases "api t v")
     (simp_all add: handleClick_def handleClick_start_def handleClick_resume_def comp_defs)

lemma handleClick_start_eq:
  "handleClick_start t v s =
     (Normal, s\<lparr>isLoading := True,
                log := log s @ [PreventDefault, SetIsLoading True,
                                FetchFromTermAndValue t v]\<rparr>)"
  by (simp add: handleClick_start_def comp_defs)

lemma handleClick_resume_Resolves:
  "handleClick_resume (Resolves r) s =
     (Normal, s\<lparr>searchResults := r,
                timers := timers s @ [(ClearLoading, clock s + 1000)],
                log := log s @ [SetSearchResults r, SetTimeout ClearLoading 1000]\<rparr>)"
  by (simp add: handleClick_resume_def comp_defs)

lemma after_first_click_eq:
  "after_first_click =
     \<lparr>isLoading = True, searchResults = first_page, featuredResult = None, console = [],
      timers = [(ClearLoading, 1000)], clock = 400,
      log = [PreventDefault, SetIsLoading True, FetchFromTermAndValue ''culture'' ''Greek'',
             SetSearchResults first_page, SetTimeout ClearLoading 1000]\<rparr>"
  by (simp add: after_first_click_def handleClick_Resolves idle_def advance_def)

section \<open>Lemmas on the rendered trees\<close>

lemma concat_map_Nil: "concat (map (\<lambda>x. []) xs) = []"
  by (induction xs) auto

lemma concat_map_jsx_and:
  "concat (map f (jsx_and v body)) = jsx_and v (\<lambda>x. concat (map f (body x)))"
  by (simp add: jsx_and_def split: option.splits)

lemma concat_map_jsx_and_nonempty:
  "concat (map f (jsx_and_nonempty v body)) =
   jsx_and_nonempty v (\<lambda>x. concat (map f (body x)))"
  by (simp add: jsx_and_nonempty_def split: option.splits)

lemma filter_jsx_and:
  "filter P (jsx_and v body) = jsx_and v (\<lambda>x. filter P (body x))"
  by (simp add: jsx_and_def split: option.splits)

lemma filter_jsx_and_nonempty:
  "filter P (jsx_and_nonempty v body) = jsx_and_nonempty v (\<lambda>x. filter P (body x))"
  by (simp add: jsx_and_nonempty_def split: option.splits)

lemma jsx_and_Nil: "jsx_and v (\<lambda>x. []) = []"
  by (simp add: jsx_and_def split: option.splits)

lemma jsx_and_nonempty_Nil: "jsx_and_nonempty v (\<lambda>x. []) = []"
  by (simp add: jsx_and_nonempty_def split: option.splits)

lemma in_set_jsx_and:
  "x \<in> set (jsx_and v body) \<longleftrightarrow> (\<exists>s. v = Some s \<and> s \<noteq> [] \<and> x \<in> set (body s))"
  by (auto simp: jsx_and_def split: option.splits)

lemma in_set_jsx_and_nonempty:
  "x \<in> set (jsx_and_nonempty v body) \<longleftrightarrow> (\<exists>xs. v = Some xs \<and> xs \<noteq> [] \<and> x \<in> set (body xs))"
  by (auto simp: jsx_and_nonempty_def split: option.splits)

lemma links_Searchable: "links (Searchable t v) = [(t, v, v)]"
  by (simp add: Searchable_def jsx_text_def)

lemma labels_Searchable: "labels (Searchable t v) = []"
  by (simp add: Searchable_def jsx_text_def)

lemma links_jsx_text: "concat (map links (jsx_text s)) = []"
  by (simp add: jsx_text_def)

lemma labels_jsx_text: "concat (map labels (jsx_text s)) = []"
  by (simp add: jsx_text_def)

lemma find_by_class_jsx_text: "concat (map (find_by_class c) (jsx_text s)) = []"
  by (simp add: jsx_text_def)

lemma links_Feature:
  "links (Feature (Some r)) =
     jsx_and_nonempty (culture r) (\<lambda>culture. map (\<lambda>item. (''culture'', item, item)) culture) @
     jsx_and (technique r)
       (\<lambda>technique. [(''technique'', toLowerCase technique, toLowerCase technique)]) @
     jsx_and (medium r) (\<lambda>medium. [(''medium'', medium, medium)]) @
     jsx_and_nonempty (people r)
       (\<lambda>people. map (\<lambda>person. (''people'', name person, name person)) people)"
  by (simp add: Feature_def concat_map_jsx_and concat_map_jsx_and_nonempty o_def
        links_Searchable links_jsx_text jsx_and_Nil)

lemma labels_Feature:
  "labels (Feature (Some r)) =
     jsx_and (title r) (\<lambda>x. [''Title:'']) @
     jsx_and (dated r) (\<lambda>x. [''Dated:'']) @
     jsx_and (primaryimageurl r) (\<lambda>x. [[]]) @
     jsx_and (description r) (\<lambda>x. [''Description:'']) @
     jsx_and_nonempty (culture r) (\<lambda>x. [''Culture:'']) @
     jsx_and (style r) (\<lambda>x. [''Style:'']) @
     jsx_and (technique r) (\<lambda>x. [''Technique:'']) @
     jsx_and (medium r) (\<lambda>x. [''Medium:'']) @
     jsx_and (dimensions r) (\<lambda>x. [''Dimensions:'']) @
     jsx_and_nonempty (people r) (\<lambda>x. [''People:'']) @
     jsx_and (department r) (\<lambda>x. [''Department:'']) @
     jsx_and (division r) (\<lambda>x. [''Division:'']) @
     jsx_and (contact r) (\<lambda>x. [''Contact:'']) @
     jsx_and (creditline r) (\<lambda>x. [''Credit Line:''])"
  by (simp add: Feature_def concat_map_jsx_and concat_map_jsx_and_nonempty o_def
        labels_Searchable labels_jsx_text jsx_and_Nil concat_map_Nil)



lemma find_entries:
  "find_by_class ''object-preview'' (Preview sr) =
     map (\<lambda>record.
            Element ''div'' [ClassName ''object-preview'', OnClick (RecordClick record)]
              (jsx_and (primaryimageurl record) (\<lambda>url.
                 [Element ''img'' [Src url, Alt (description record)] []]) @
               [Element ''h3'' [] (jsx_text (js_or (title record) ''MISSING INFO''))]))
         (records sr)"
  by (simp add: Preview_def concat_map_jsx_and o_def find_by_class_jsx_text jsx_and_Nil
        concat_map_Nil)

section \<open>The claims\<close>

text \<open>
  C1. Every activation of a search link or of a pagination control is to write the loading
  flag exactly twice, \<open>True\<close> before the fetch is awaited and \<open>False\<close> after it has
  settled, with the replacement of the search results in between. \<^verbatim>\<open>fetchPage\<close> writes
  the \<open>False\<close> in its finally block; \<^verbatim>\<open>handleClick\<close> leaves it to a timer 1000
  milliseconds later, and the timer of one click falls into the next one. For a click on a
  search link 400 milliseconds after an earlier one has settled, with a fetch that takes 700
  milliseconds: the flag is \<open>True\<close> when the click returns, the earlier timer writes
  \<open>False\<close> while the fetch is in flight and the old results are still shown, the results
  are replaced after that, and the click's own timer writes \<open>False\<close> once more.
\<close>

theorem loading_flag_cleared_while_fetch_in_flight:
  "isLoading second_click_started
   \<and> \<not> isLoading second_fetch_in_flight
   \<and> searchResults second_fetch_in_flight = first_page
   \<and> searchResults second_fetch_settled = no_results
   \<and> log second_timer_fired =
       log after_first_click @
       [PreventDefault, SetIsLoading True, FetchFromTermAndValue ''culture'' ''Roman'',
        SetIsLoading False, SetSearchResults no_results, SetTimeout ClearLoading 1000,
        SetIsLoading False]"
proof -
  have started: "second_click_started =
      after_first_click\<lparr>log := log after_first_click @
        [PreventDefault, SetIsLoading True, FetchFromTermAndValue ''culture'' ''Roman'']\<rparr>"
    by (simp add: second_click_started_def handleClick_start_eq after_first_click_eq)
  have in_flight: "second_fetch_in_flight =
      after_first_click\<lparr>isLoading := False, timers := [], clock := 1100,
        log := log after_first_click @
          [PreventDefault, SetIsLoading True, FetchFromTermAndValue ''culture'' ''Roman'',
           SetIsLoading False]\<rparr>"
    unfolding second_fetch_in_flight_def started
    by (simp add: after_first_click_eq advance_single_due)
  have settled: "second_fetch_settled =
      after_first_click\<lparr>isLoading := False, searchResults := no_results,
        timers := [(ClearLoading, 2100)], clock := 1100,
        log := log after_first_click @
          [PreventDefault, SetIsLoading True, FetchFromTermAndValue ''culture'' ''Roman'',
           SetIsLoading False, SetSearchResults no_results,
           SetTimeout ClearLoading 1000]\<rparr>"
    unfolding second_fetch_settled_def in_flight
    by (simp add: after_first_click_eq handleClick_resume_Resolves)
  have fired: "log second_timer_fired =
      log after_first_click @
        [PreventDefault, SetIsLoading True, FetchFromTermAndValue ''culture'' ''Roman'',
         SetIsLoading False, SetSearchResults no_results, SetTimeout ClearLoading 1000,
         SetIsLoading False]"
    unfolding second_timer_fired_def settled
    by (simp add: after_first_click_eq advance_single_due)
  show ?thesis
    using fired by (simp add: started in_flight settled after_first_click_eq)
qed

text \<open>
  C2. When the fetch rejects, the handler ends normally (no exception leaves it), the error
  is written once to the console, the search results are the ones from before, and the
  loading flag is \<open>False\<close> again: at once for \<^verbatim>\<open>fetchPage\<close>, and for \<^verbatim>\<open>handleClick\<close> once
  the 1000 milliseconds of its timer have passed.
\<close>

theorem fetch_failure_absorbed:
  assumes "api_tv t v = Rejects e" and "api_url u = Rejects e'" and "1000 \<le> dt"
  shows "fst (handleClick api_tv t v s) = Normal
       \<and> console (snd (handleClick api_tv t v s)) = console s @ [e]
       \<and> searchResults (snd (handleClick api_tv t v s)) = searchResults s
       \<and> console (advance dt (snd (handleClick api_tv t v s))) = console s @ [e]
       \<and> searchResults (advance dt (snd (handleClick api_tv t v s))) = searchResults s
       \<and> \<not> isLoading (advance dt (snd (handleClick api_tv t v s)))
       \<and> fst (fetchPage api_url u s) = Normal
       \<and> console (snd (fetchPage api_url u s)) = console s @ [e']
       \<and> searchResults (snd (fetchPage api_url u s)) = searchResults s
       \<and> \<not> isLoading (snd (fetchPage api_url u s))"
proof -
  let ?s' = "snd (handleClick api_tv t v s)"
  have timer: "(ClearLoading, clock s + 1000) \<in> set (timers ?s')" and clock: "clock ?s' = clock s"
    using assms(1) by (simp_all add: handleClick_Rejects)
  have "\<not> isLoading (advance dt ?s')"
    using advance_due [OF timer, of dt] clock assms(3) by simp
  then show ?thesis
    using assms(1,2) by (simp add: handleClick_Rejects fetchPage_Rejects advance_frame)
qed

theorem fetch_failure_absorbed_witness:
  "fst (handleClick (\<lambda>t v. Rejects ''network error'') ''culture'' ''Greek'' idle) = Normal
   \<and> console (advance 1000
        (snd (handleClick (\<lambda>t v. Rejects ''network error'') ''culture'' ''Greek'' idle))) =
      [''network error'']
   \<and> searchResults (advance 1000
        (snd (handleClick (\<lambda>t v. Rejects ''network error'') ''culture'' ''Greek'' idle))) =
      first_page
   \<and> \<not> isLoading (advance 1000
        (snd (handleClick (\<lambda>t v. Rejects ''network error'') ''culture'' ''Greek'' idle)))
   \<and> fst (fetchPage (\<lambda>u. Rejects ''timeout'') (Some ''page2'') idle) = Normal
   \<and> console (snd (fetchPage (\<lambda>u. Rejects ''timeout'') (Some ''page2'') idle)) = [''timeout'']
   \<and> searchResults (snd (fetchPage (\<lambda>u. Rejects ''timeout'') (Some ''page2'') idle)) =
      first_page
   \<and> \<not> isLoading (snd (fetchPage (\<lambda>u. Rejects ''timeout'') (Some ''page2'') idle))"
proof -
  have "console idle = []" and "searchResults idle = first_page"
    by (simp_all add: idle_def)
  then show ?thesis
    using fetch_failure_absorbed
      [of "\<lambda>t v. Rejects ''network error''" "''culture''" "''Greek''" "''network error''"
          "\<lambda>u. Rejects ''timeout''" "Some ''page2''" "''timeout''" 1000 idle]
    by simp
qed

text \<open>
  C3. In the detail view of a record whose medium is present (and not the empty string) there
  is exactly one search link with the term \<^verbatim>\<open>medium\<close>; its search value is the medium as it
  is, and it shows that value. With a technique present there is exactly one search link
  with the term \<^verbatim>\<open>technique\<close>; its search value is the technique in lower case, and the text
  it shows is that search value. Clicking a search link calls the fetch collaborator once,
  with the link's term and search value.
\<close>

theorem medium_as_is_technique_lower_cased:
  "(medium r = Some m \<and> m \<noteq> [] \<longrightarrow>
      [l \<leftarrow> links (Feature (Some r)). fst l = ''medium''] = [(''medium'', m, m)])
   \<and> (technique r = Some tq \<and> tq \<noteq> [] \<longrightarrow>
      [l \<leftarrow> links (Feature (Some r)). fst l = ''technique''] =
        [(''technique'', toLowerCase tq, toLowerCase tq)])
   \<and> fetch_calls (snd (run_handler api_tv api_url (HandleClick t v) s)) =
        fetch_calls s @ [FetchFromTermAndValue t v]"
proof -
  have "[l \<leftarrow> links (Feature (Some r)). fst l = ''medium''] =
          jsx_and (medium r) (\<lambda>medium. [(''medium'', medium, medium)])"
    by (simp add: links_Feature filter_jsx_and filter_jsx_and_nonempty filter_map o_def
          jsx_and_Nil jsx_and_nonempty_Nil)
  moreover have "[l \<leftarrow> links (Feature (Some r)). fst l = ''technique''] =
          jsx_and (technique r)
            (\<lambda>technique. [(''technique'', toLowerCase technique, toLowerCase technique)])"
    by (simp add: links_Feature filter_jsx_and filter_jsx_and_nonempty filter_map o_def
          jsx_and_Nil jsx_and_nonempty_Nil)
  ultimately show ?thesis
    by (simp add: jsx_and_def run_handler_def handleClick_fetch_calls)
qed

theorem medium_as_is_technique_lower_cased_witness:
  "[l \<leftarrow> links (Feature (Some etching)). fst l = ''medium''] =
     [(''medium'', ''Oil on Canvas'', ''Oil on Canvas'')]
   \<and> [l \<leftarrow> links (Feature (Some etching)). fst l = ''technique''] =
     [(''technique'', ''etching'', ''etching'')]
   \<and> fetch_calls (snd (run_handler (\<lambda>t v. Resolves no_results) (\<lambda>u. NeverSettles)
        (HandleClick ''medium'' ''Oil on Canvas'') idle)) =
     [FetchFromTermAndValue ''medium'' ''Oil on Canvas'']"
proof -
  have "medium etching = Some ''Oil on Canvas''" and "technique etching = Some ''Etching''"
    and "toLowerCase ''Etching'' = ''etching''" and "fetch_calls idle = []"
    by (simp_all add: etching_def no_fields_def toLowerCase_def lower_char_def
          fetch_calls_def idle_def)
  then show ?thesis
    using medium_as_is_technique_lower_cased
      [of etching "''Oil on Canvas''" "''Etching''" "\<lambda>t v. Resolves no_results"
          "\<lambda>u. NeverSettles" "''medium''" "''Oil on Canvas''" idle]
    by simp
qed

text \<open>
  C4. The medium is to be lower-cased before it is used as the search value of its link,
  while the link shows the medium as it is. The code does not lower-case it: for the record
  whose medium is \<^verbatim>\<open>Oil on Canvas\<close> the only search link of the detail view has the search
  value \<^verbatim>\<open>Oil on Canvas\<close>, which is what a click passes to the fetch collaborator, and
  not the lower-cased \<^verbatim>\<open>oil on canvas\<close>.
\<close>

theorem medium_not_lower_cased:
  "links (Feature (Some (no_fields\<lparr>medium := Some ''Oil on Canvas''\<rparr>))) =
     [(''medium'', ''Oil on Canvas'', ''Oil on Canvas'')]
   \<and> fetch_calls (snd (run_handler (\<lambda>t v. NeverSettles) (\<lambda>u. NeverSettles)
        (HandleClick ''medium'' ''Oil on Canvas'') idle)) =
     [FetchFromTermAndValue ''medium'' ''Oil on Canvas'']
   \<and> toLowerCase ''Oil on Canvas'' = ''oil on canvas''
   \<and> ''Oil on Canvas'' \<noteq> ''oil on canvas''"
proof -
  have "fetch_calls idle = []"
    by (simp add: fetch_calls_def idle_def)
  then show ?thesis
    by (simp add: links_Feature no_fields_def jsx_and_def jsx_and_nonempty_def
          toLowerCase_def lower_char_def handleClick_fetch_calls run_handler_def)
qed

text \<open>
  C5. Each person of a record is to get a search link whose value is the person's display
  name. The code takes the \<^verbatim>\<open>name\<close> member instead: for the record with the one person
  named \<^verbatim>\<open>Rembrandt\<close>, whose display name is \<^verbatim>\<open>Rembrandt Harmensz. van Rijn\<close>, the search
  link has the search value and the text \<^verbatim>\<open>Rembrandt\<close>.
\<close>

theorem people_link_uses_name:
  "links (Feature (Some portrait)) = [(''people'', ''Rembrandt'', ''Rembrandt'')]
   \<and> map displayname (the (people portrait)) = [''Rembrandt Harmensz. van Rijn'']"
  by (simp add: links_Feature portrait_def no_fields_def jsx_and_def jsx_and_nonempty_def)

text \<open>
  C6. The images of a record are to be shown, one image element per entry. The code reads
  the images field and never renders it: for the record with two images (and no primary
  image) the detail view shows no image at all, and is the detail view of the record with no
  field.
\<close>

theorem images_not_rendered:
  "img_sources (Feature (Some album)) = []
   \<and> images album = Some [''img1'', ''img2'']
   \<and> Feature (Some album) = Feature (Some no_fields)"
  by (simp add: Feature_def album_def no_fields_def jsx_and_def jsx_and_nonempty_def)



text \<open>
  C8. The detail view of no record is the empty \<^verbatim>\<open>main\<close> element: no header and no fact
  row. In the detail view of a record, the label of a fact row appears only if the row's
  field is present on the record, and for culture and people is not empty.
\<close>

theorem fact_row_only_if_present:
  "Feature None = Element ''main'' [ElemId ''feature''] []
   \<and> labels (Feature None) = []
   \<and> (fact_label f \<in> set (labels (Feature (Some r))) \<longrightarrow> fact_present f r)"
proof -
  have "fact_label f \<in> set (labels (Feature (Some r))) \<longrightarrow> fact_present f r"
    by (cases f) (auto simp: labels_Feature in_set_jsx_and in_set_jsx_and_nonempty)
  then show ?thesis by (simp add: Feature_def)
qed

theorem fact_row_only_if_present_witness:
  "fact_label CultureFact \<in> set (labels (Feature (Some bowl)))
   \<and> fact_present CultureFact bowl
   \<and> fact_label DatedFact \<notin> set (labels (Feature (Some bowl)))
   \<and> labels (Feature None) = []"
proof -
  have "labels (Feature (Some bowl)) = [''Title:'', ''Culture:'']"
    by (simp add: labels_Feature bowl_def no_fields_def jsx_and_def jsx_and_nonempty_def)
  then show ?thesis
    using fact_row_only_if_present [of CultureFact bowl] by simp
qed

text \<open>
  C9. The result list has one entry per record, in the order of the records. A click on the
  entry of a record sets the featured result to that record, after preventing the default
  action of the event, and does nothing else: no fetch is called, the loading flag and the
  search results are not written.
\<close>

theorem select_record_only:
  assumes "i < length (records sr)"
  shows "length (find_by_class ''object-preview'' (Preview sr)) = length (records sr)
       \<and> click api_tv api_url (find_by_class ''object-preview'' (Preview sr) ! i) s =
           (Normal, s\<lparr>featuredResult := Some (records sr ! i),
                      log := log s @ [PreventDefault, SetFeaturedResult (records sr ! i)]\<rparr>)"
  using assms
  by (simp add: find_entries click_def run_handler_def selectRecord_eq)

theorem select_record_only_witness:
  "click (\<lambda>t v. NeverSettles) (\<lambda>u. NeverSettles)
     (find_by_class ''object-preview'' (Preview first_page) ! 0) idle =
   (Normal, idle\<lparr>featuredResult := Some vase,
                 log := [PreventDefault, SetFeaturedResult vase]\<rparr>)"
proof -
  have "records first_page = [vase]" and "log idle = []"
    by (simp_all add: first_page_def idle_def)
  then show ?thesis
    using select_record_only [of 0 first_page "\<lambda>t v. NeverSettles" "\<lambda>u. NeverSettles" idle]
    by simp
qed




end
